theory Spec2Isabelle
  imports Complex_Main
begin

section \<open>Strings and numbers of the script\<close>

text \<open>
  A JavaScript string is a sequence of UTF-16 code units; a code unit is modelled by its
  number. \<open>js\<close> turns an ASCII literal of the script into that representation.
\<close>

type_synonym jsstring = "nat list"

definition js :: "string \<Rightarrow> jsstring" where
  "js s = map of_char s"

text \<open>
  Conversion of a number to a string, as a template literal or \<open>+\<close> does it, for the
  integers that occur here (below \<open>10^21\<close>, where JavaScript prints all decimal digits).
\<close>

fun digits :: "nat \<Rightarrow> jsstring" where
  "digits n = (if n < 10 then [48 + n] else digits (n div 10) @ [48 + n mod 10])"

definition numToString :: "int \<Rightarrow> jsstring" where
  "numToString i = (if i < 0 then 45 # digits (nat (- i)) else digits (nat i))"

section \<open>Relative time: \<open>daysAgo\<close>\<close>

text \<open>
  \<open>daysAgo(dateString)\<close> reads the clock (\<open>now\<close>, milliseconds since the epoch) and
  parses its argument; both are inputs of the model. \<open>None\<close> is the Invalid Date that
  \<open>new Date\<close> returns for an unparsable string: its time value is NaN, every comparison
  with NaN is false, and the last \<open>return\<close> prints \<open>NaN years ago\<close>.
  Time values are integers, and for dates of the JavaScript range the quotient by
  86400000 is far enough from the next integer that \<open>Math.ceil\<close> of the double is the
  ceiling of the exact quotient; \<open>Math.floor(diffDays / k)\<close> is integer division.
\<close>

definition daysAgo :: "int \<Rightarrow> int option \<Rightarrow> jsstring" where
  "daysAgo now date =
     (case date of
        None \<Rightarrow> js ''NaN years ago''
      | Some d \<Rightarrow>
          (let diffTime = \<bar>now - d\<bar>;
               diffDays = \<lceil>real_of_int diffTime / (1000 * 60 * 60 * 24)\<rceil>
           in if diffDays = 0 then js ''Today''
              else if diffDays = 1 then js ''Yesterday''
              else if diffDays < 7 then numToString diffDays @ js '' days ago''
              else if diffDays < 30 then numToString (diffDays div 7) @ js '' weeks ago''
              else if diffDays < 365 then numToString (diffDays div 30) @ js '' months ago''
              else numToString (diffDays div 365) @ js '' years ago''))"

section \<open>String operations\<close>

text \<open>
  The code units that \<open>String.prototype.trim\<close> removes and that \<open>\s\<close> matches:
  WhiteSpace (TAB, VT, FF, SP, NBSP, ZWNBSP and the space separators) and LineTerminator
  (LF, CR, LS, PS).
\<close>

definition is_space :: "nat \<Rightarrow> bool" where
  "is_space c \<longleftrightarrow>
     c \<in> set [9, 10, 11, 12, 13, 32, 160, 5760, 8232, 8233, 8239, 8287, 12288, 65279]
     \<or> (8192 \<le> c \<and> c \<le> 8202)"

definition trim :: "jsstring \<Rightarrow> jsstring" where
  "trim s = rev (dropWhile is_space (rev (dropWhile is_space s)))"

text \<open>
  \<open>s.replace(pat, rep)\<close> with a string pattern: only the first occurrence is replaced.
  (The replacement strings of the script contain no \<open>$\<close> pattern.)
\<close>

fun replace :: "jsstring \<Rightarrow> jsstring \<Rightarrow> jsstring \<Rightarrow> jsstring" where
  "replace pat rep [] = (if pat = [] then rep else [])"
| "replace pat rep (c # cs) =
     (if take (length pat) (c # cs) = pat then rep @ drop (length pat) (c # cs)
      else c # replace pat rep cs)"

text \<open>\<open>Array.prototype.join\<close> on an array of strings.\<close>

fun join :: "jsstring \<Rightarrow> jsstring list \<Rightarrow> jsstring" where
  "join sep [] = []"
| "join sep [x] = x"
| "join sep (x # y # ys) = x @ sep @ join sep (y # ys)"

section \<open>The page\<close>

text \<open>
  The script keeps its state in the document. The record holds the parts of the page the
  handlers read and write, together with what leaves the page: blocking alerts, HTTP
  requests and desktop notifications, each in the order of occurrence.
\<close>

record jsfile =
  file_name :: jsstring
  file_size :: nat

datatype part = FilePart jsfile | TextPart jsstring

datatype qval = QStr jsstring | QNum nat

datatype request =
    POST jsstring "(jsstring \<times> part) list"
  | GET jsstring "(jsstring \<times> qval) list"

record notification =
  title :: jsstring
  message :: jsstring
  type :: jsstring

record control =
  in_dom :: bool
  disabled :: bool
  html :: jsstring

record badge =
  badge_text :: jsstring
  shown :: bool

datatype permission = Default | Granted | Denied

record desktop_notification =
  dn_title :: jsstring
  dn_body :: jsstring
  dn_icon :: jsstring

record page =
  alerts :: "jsstring list"
  requests :: "request list"
  desktop :: "desktop_notification list"
  notification_permission :: permission
  notifications :: "notification list"
  resumeUpload :: jsstring
  resumeFileName :: jsstring
  fullName :: jsstring
  email :: jsstring
  phone :: jsstring
  skillsInput :: jsstring
  skillTags :: "jsstring list"
  skills :: jsstring
  currentPage :: nat
  loadMoreJobs :: control
  notificationBadge :: badge

text \<open>
  A remote call settles once: jQuery runs the \<open>error\<close> callback when the request is
  rejected (no connection, an HTTP error status, an unparsable body) and the \<open>success\<close>
  callback with the decoded response otherwise.
\<close>

datatype 'a outcome = Rejected | Resolved 'a

subsection \<open>Notification banner\<close>

text \<open>
  \<open>showNotification\<close> builds an alert element from its three arguments and prepends it
  to the \<open>.notifications\<close> container. (The timer that closes it five seconds later is
  not part of the model.)
\<close>

definition showNotification :: "jsstring \<Rightarrow> jsstring \<Rightarrow> jsstring \<Rightarrow> page \<Rightarrow> page" where
  "showNotification t m ty s =
     s\<lparr>notifications := \<lparr>title = t, message = m, type = ty\<rparr> # notifications s\<rparr>"

subsection \<open>Skill tags\<close>

text \<open>
  \<open>skillTags\<close> holds the text content of each \<open>.skill-tag\<close> element inside
  \<open>#skillTags\<close>, in document order. The block that ends both functions reads every tag
  back, trims it, removes the first multiplication sign (code unit 215) and stores the
  comma-joined list in the hidden \<open>#skills\<close> input.
\<close>

definition updateHiddenInput :: "page \<Rightarrow> page" where
  "updateHiddenInput s =
     (let skills_array = foldl (\<lambda>acc t. acc @ [replace [215] [] (trim t)]) [] (skillTags s)
      in s\<lparr>skills := join (js '','') skills_array\<rparr>)"

text \<open>
  \<open>addSkillTag\<close> puts the skill into an HTML string and hands the string to \<open>append\<close>,
  which has the browser parse it. What the browser makes of the string is a parameter of
  the model: \<open>rendered markup\<close> is the list of the texts of the \<open>.skill-tag\<close> elements that
  the parsed string adds to the container, in document order. They are appended, so they
  follow every tag that is already there.
\<close>

definition tag_open :: jsstring where
  "tag_open = js ''<span class=\"skill-tag\">''"

definition tag_close :: jsstring where
  "tag_close =
     js ''<button type=\"button\" class=\"btn-close btn-close-white\" ''
     @ js ''onclick=\"removeSkillTag(this)\"></button></span>''"

definition tag_html :: "jsstring \<Rightarrow> jsstring" where
  "tag_html skill = tag_open @ skill @ js '' '' @ tag_close"

definition addSkillTag :: "(jsstring \<Rightarrow> jsstring list) \<Rightarrow> jsstring \<Rightarrow> page \<Rightarrow> page" where
  "addSkillTag rendered skill s =
     (let tag = tag_html skill
      in updateHiddenInput (s\<lparr>skillTags := skillTags s @ rendered tag\<rparr>))"



text \<open>
  \<open>removeSkillTag(button)\<close> removes the parent element of the button with everything
  inside it. \<open>inside\<close> lists the positions, in document order, of the tags of the
  container that are this element or lie within it: the one position of the tag for a
  close button that \<open>addSkillTag\<close> made from a skill without markup.
\<close>

definition removeSkillTag :: "nat list \<Rightarrow> page \<Rightarrow> page" where
  "removeSkillTag inside s =
     updateHiddenInput
       (s\<lparr>skillTags :=
            map snd (filter (\<lambda>(i, t). i \<notin> set inside) (enumerate 0 (skillTags s)))\<rparr>)"

text \<open>The keypress handler of \<open>#skillsInput\<close>; \<open>which\<close> is the key code (13 Enter, 44 comma).\<close>

definition skillsInput_keypress :: "(jsstring \<Rightarrow> jsstring list) \<Rightarrow> nat \<Rightarrow> page \<Rightarrow> page" where
  "skillsInput_keypress rendered which s =
     (if which = 13 \<or> which = 44 then
        (let skill = trim (skillsInput s)
         in if skill \<noteq> [] then (addSkillTag rendered skill s)\<lparr>skillsInput := []\<rparr> else s)
      else s)"

subsection \<open>Resume parsing call\<close>

record parse_response =
  pr_success :: bool
  pr_name :: "jsstring option"
  pr_email :: "jsstring option"
  pr_phone :: "jsstring option"
  pr_skills :: "jsstring list option"

text \<open>A field of the response is truthy when it is present and not the empty string.\<close>

definition truthy :: "jsstring option \<Rightarrow> bool" where
  "truthy v = (case v of None \<Rightarrow> False | Some x \<Rightarrow> x \<noteq> [])"

definition parseResume :: "jsfile \<Rightarrow> page \<Rightarrow> page" where
  "parseResume f s =
     s\<lparr>requests := requests s @ [POST (js ''/api/parse-resume'') [(js ''resume'', FilePart f)]]\<rparr>"

definition parseResume_settled ::
  "(jsstring \<Rightarrow> jsstring list) \<Rightarrow> parse_response outcome \<Rightarrow> page \<Rightarrow> page" where
  "parseResume_settled rendered out s =
     (case out of
        Resolved data \<Rightarrow>
          (if pr_success data then
             (let s1 = (if truthy (pr_name data) then s\<lparr>fullName := the (pr_name data)\<rparr> else s);
                  s2 = (if truthy (pr_email data) then s1\<lparr>email := the (pr_email data)\<rparr> else s1);
                  s3 = (if truthy (pr_phone data) then s2\<lparr>phone := the (pr_phone data)\<rparr> else s2);
                  s4 = (case pr_skills data of
                          None \<Rightarrow> s3
                        | Some ks \<Rightarrow> foldl (\<lambda>st skill. addSkillTag rendered skill st) s3 ks)
              in showNotification (js ''Success!'') (js ''Resume parsed successfully.'')
                   (js ''success'') s4)
           else s)
      | Rejected \<Rightarrow>
          showNotification (js ''Error!'') (js ''Failed to parse resume.'') (js ''error'') s)"

subsection \<open>Resume upload\<close>

text \<open>
  \<open>x.toFixed(2)\<close> for \<open>0 \<le> x < 10^21\<close>: the integer \<open>n\<close> with \<open>n / 100\<close> nearest to \<open>x\<close>
  (the larger one on a tie), printed with two decimals. \<open>file.size / 1024 / 1024\<close> is
  exact in double precision, so \<open>x\<close> is the exact quotient.
\<close>

definition toFixed2 :: "real \<Rightarrow> jsstring" where
  "toFixed2 x =
     (let n = nat \<lfloor>x * 100 + 1 / 2\<rfloor>
      in digits (n div 100) @ js ''.'' @ [48 + n mod 100 div 10, 48 + n mod 10])"

text \<open>
  \<open>fileSize > 5\<close> compares a string with a number, so the string is converted to a
  number first. The conversion is modelled on the strings \<open>toFixed(2)\<close> produces (decimal
  digits, a point, two decimal digits); \<open>None\<close> is NaN, for which the comparison is
  false. The double nearest to \<open>n / 100\<close> exceeds 5 exactly when \<open>n / 100\<close> does.
\<close>

definition is_digit :: "nat \<Rightarrow> bool" where
  "is_digit c \<longleftrightarrow> 48 \<le> c \<and> c \<le> 57"

definition decimal :: "jsstring \<Rightarrow> nat" where
  "decimal ds = foldl (\<lambda>a c. 10 * a + (c - 48)) 0 ds"

definition toNumber :: "jsstring \<Rightarrow> real option" where
  "toNumber s =
     (let ip = takeWhile (\<lambda>c. c \<noteq> 46) s;
          fp = drop (Suc (length ip)) s
      in if ip \<noteq> [] \<and> list_all is_digit ip \<and> length ip < length s
            \<and> length fp = 2 \<and> list_all is_digit fp
         then Some (real (decimal ip) + real (decimal fp) / 100)
         else None)"

definition exceeds :: "jsstring \<Rightarrow> real \<Rightarrow> bool" where
  "exceeds str bound = (case toNumber str of None \<Rightarrow> False | Some v \<Rightarrow> v > bound)"

text \<open>
  The change handler of \<open>#resumeUpload\<close>; \<open>files\<close> is \<open>e.target.files\<close>, and the
  handler does nothing when it has no first element.
\<close>

definition resumeUpload_change :: "jsfile list \<Rightarrow> page \<Rightarrow> page" where
  "resumeUpload_change files s =
     (case files of
        [] \<Rightarrow> s
      | f # _ \<Rightarrow>
          (let fileName = file_name f;
               fileSize = toFixed2 (real (file_size f) / 1024 / 1024)
           in if exceeds fileSize 5 then
                s\<lparr>alerts := alerts s @ [js ''File size should be less than 5MB''],
                  resumeUpload := []\<rparr>
              else
                parseResume f
                  (s\<lparr>resumeFileName := fileName @ js '' ('' @ fileSize @ js '' MB)''\<rparr>)))"

subsection \<open>Ajax forms\<close>

record form_response =
  fr_success :: bool
  fr_message :: jsstring

definition ajax_form_submit :: "jsstring \<Rightarrow> (jsstring \<times> part) list \<Rightarrow> page \<Rightarrow> page" where
  "ajax_form_submit action formData s = s\<lparr>requests := requests s @ [POST action formData]\<rparr>"

definition ajax_form_settled :: "form_response outcome \<Rightarrow> page \<Rightarrow> page" where
  "ajax_form_settled out s =
     (case out of
        Resolved response \<Rightarrow>
          (if fr_success response
           then showNotification (js ''Success!'') (fr_message response) (js ''success'') s
           else showNotification (js ''Error!'') (fr_message response) (js ''error'') s)
      | Rejected \<Rightarrow>
          showNotification (js ''Error!'') (js ''Something went wrong. Please try again.'')
            (js ''error'') s)"

subsection \<open>Calls made with \<open>$.get\<close>\<close>

text \<open>
  \<open>$.get(url, data, success)\<close> registers a success callback only: when the request is
  rejected, no code of the script runs.
\<close>

definition jobSearch_keyup :: "jsstring \<Rightarrow> page \<Rightarrow> page" where
  "jobSearch_keyup query s =
     (if length query \<ge> 2
      then s\<lparr>requests := requests s @ [GET (js ''/api/jobs/autocomplete'') [(js ''q'', QStr query)]]\<rparr>
      else s)"

definition jobSearch_settled :: "'a outcome \<Rightarrow> page \<Rightarrow> page" where
  "jobSearch_settled out s = (case out of Resolved data \<Rightarrow> s | Rejected \<Rightarrow> s)"

text \<open>The document-ready handler declares the page counter: \<open>let currentPage = 1\<close>.\<close>

definition ready :: "page \<Rightarrow> page" where
  "ready s = s\<lparr>currentPage := 1\<rparr>"

definition loadMoreJobs_click :: "page \<Rightarrow> page" where
  "loadMoreJobs_click s =
     (let s1 = s\<lparr>currentPage := currentPage s + 1\<rparr>;
          s2 = s1\<lparr>loadMoreJobs := (loadMoreJobs s1)\<lparr>disabled := True,
                 html := js ''<span class=\"spinner-border spinner-border-sm\"></span> Loading...''\<rparr>\<rparr>
      in s2\<lparr>requests := requests s2 @ [GET (js ''/api/jobs'') [(js ''page'', QNum (currentPage s2))]]\<rparr>)"

text \<open>
  The response carries the \<open>jobs\<close> array. \<open>remove()\<close> takes the button out of the
  document; later writes to the detached element do not bring it back.
\<close>

definition loadMoreJobs_settled :: "'j list outcome \<Rightarrow> page \<Rightarrow> page" where
  "loadMoreJobs_settled out s =
     (case out of
        Resolved jobs \<Rightarrow>
          (if length jobs > 0
           then s\<lparr>loadMoreJobs := (loadMoreJobs s)\<lparr>disabled := False, html := js ''Load More''\<rparr>\<rparr>
           else s\<lparr>loadMoreJobs := (loadMoreJobs s)\<lparr>in_dom := False\<rparr>\<rparr>)
      | Rejected \<Rightarrow> s)"

definition checkNotifications :: "page \<Rightarrow> page" where
  "checkNotifications s =
     s\<lparr>requests := requests s @ [GET (js ''/api/notifications/unread'') []]\<rparr>"

definition checkNotifications_settled :: "int outcome \<Rightarrow> page \<Rightarrow> page" where
  "checkNotifications_settled out s =
     (case out of
        Resolved count \<Rightarrow>
          (if count > 0 then
             (let s1 = s\<lparr>notificationBadge := \<lparr>badge_text = numToString count, shown = True\<rparr>\<rparr>
              in if notification_permission s1 = Granted
                 then s1\<lparr>desktop := desktop s1 @
                        [\<lparr>dn_title = js ''New Notification'',
                          dn_body = js ''You have '' @ numToString count @ js '' new notifications'',
                          dn_icon = js ''/static/favicon.ico''\<rparr>]\<rparr>
                 else s1)
           else s)
      | Rejected \<Rightarrow> s)"

text \<open>A page with nothing on it, as a starting point for concrete runs.\<close>

definition empty_page :: page where
  "empty_page =
     \<lparr>alerts = [], requests = [], desktop = [], notification_permission = Default,
      notifications = [], resumeUpload = [], resumeFileName = [], fullName = [], email = [],
      phone = [], skillsInput = [], skillTags = [], skills = [], currentPage = 1,
      loadMoreJobs = \<lparr>in_dom = True, disabled = False, html = js ''Load More''\<rparr>,
      notificationBadge = \<lparr>badge_text = [], shown = False\<rparr>\<rparr>"

section \<open>Regular expressions\<close>

datatype rx =
    Never
  | Empty
  | Cls "nat \<Rightarrow> bool"
  | Alt rx rx
  | Seq rx rx
  | Star rx

text \<open>A literal code unit, and \<open>r+\<close>: one or more repetitions.\<close>

definition Chr :: "nat \<Rightarrow> rx" where
  "Chr c = Cls (\<lambda>x. x = c)"

definition Plus :: "rx \<Rightarrow> rx" where
  "Plus r = Seq r (Star r)"

text \<open>
  Matching consumes the input one code unit at a time: \<open>residual c r\<close> matches what may
  follow \<open>c\<close> in a match of \<open>r\<close>, and the input is accepted when the expression left
  at its end matches the empty string.
\<close>

fun matches_empty :: "rx \<Rightarrow> bool" where
  "matches_empty Never = False"
| "matches_empty Empty = True"
| "matches_empty (Cls p) = False"
| "matches_empty (Alt a b) = (matches_empty a \<or> matches_empty b)"
| "matches_empty (Seq a b) = (matches_empty a \<and> matches_empty b)"
| "matches_empty (Star r) = True"

fun residual :: "nat \<Rightarrow> rx \<Rightarrow> rx" where
  "residual c Never = Never"
| "residual c Empty = Never"
| "residual c (Cls p) = (if p c then Empty else Never)"
| "residual c (Alt a b) = Alt (residual c a) (residual c b)"
| "residual c (Seq a b) =
     (if matches_empty a then Alt (Seq (residual c a) b) (residual c b)
      else Seq (residual c a) b)"
| "residual c (Star r) = Seq (residual c r) (Star r)"

fun matches :: "rx \<Rightarrow> jsstring \<Rightarrow> bool" where
  "matches r [] = matches_empty r"
| "matches r (c # cs) = matches (residual c r) cs"

text \<open>
  A regular expression literal without flags: \<open>^\<close> and \<open>$\<close> tie the match to the start
  and the end of the input; without them \<open>test\<close> looks for a match anywhere.
\<close>

record regex =
  from_start :: bool
  body :: rx
  to_end :: bool

definition anything :: rx where
  "anything = Star (Cls (\<lambda>c. True))"

definition test :: "regex \<Rightarrow> jsstring \<Rightarrow> bool" where
  "test re s =
     matches (Seq (if from_start re then Empty else anything)
                  (Seq (body re) (if to_end re then Empty else anything))) s"

text \<open>
  What a regular expression denotes: the strings it matches, as a set of derivations.
  It is the reference against which the matcher is verified.
\<close>

inductive denotes :: "rx \<Rightarrow> jsstring \<Rightarrow> bool" where
  empty: "denotes Empty []"
| cls: "p c \<Longrightarrow> denotes (Cls p) [c]"
| alt_left: "denotes a s \<Longrightarrow> denotes (Alt a b) s"
| alt_right: "denotes b s \<Longrightarrow> denotes (Alt a b) s"
| seq: "denotes a s \<Longrightarrow> denotes b t \<Longrightarrow> denotes (Seq a b) (s @ t)"
| star_stop: "denotes (Star r) []"
| star_more: "denotes r s \<Longrightarrow> denotes (Star r) t \<Longrightarrow> denotes (Star r) (s @ t)"

section \<open>Form and input enhancements\<close>

subsection \<open>Email fields\<close>

text \<open>The literal \<open>/^[^\s@]+@[^\s@]+\.[^\s@]+$/\<close>; 64 is \<open>@\<close> and 46 the full stop.\<close>

definition emailRegex :: regex where
  "emailRegex =
     \<lparr>from_start = True,
      body = Seq (Plus (Cls (\<lambda>c. \<not> (is_space c \<or> c = 64))))
            (Seq (Chr 64)
            (Seq (Plus (Cls (\<lambda>c. \<not> (is_space c \<or> c = 64))))
            (Seq (Chr 46)
                 (Plus (Cls (\<lambda>c. \<not> (is_space c \<or> c = 64))))))),
      to_end = True\<rparr>"

text \<open>
  An email input: its value, whether it carries the class \<open>is-invalid\<close>, and the text
  of the \<open>.invalid-feedback\<close> element that immediately follows it, if there is one.
\<close>

record email_field =
  val :: jsstring
  is_invalid :: bool
  feedback :: "jsstring option"

definition email_blur :: "email_field \<Rightarrow> email_field" where
  "email_blur fld =
     (let email = val fld
      in if email \<noteq> [] \<and> \<not> test emailRegex email
         then fld\<lparr>is_invalid := True,
                  feedback := map_option (\<lambda>old. js ''Please enter a valid email address.'')
                                (feedback fld)\<rparr>
         else fld\<lparr>is_invalid := False\<rparr>)"

subsection \<open>Password strength\<close>

text \<open>A literal without anchors, as in \<open>/[A-Z]/\<close>.\<close>

definition search :: "rx \<Rightarrow> regex" where
  "search r = \<lparr>from_start = False, body = r, to_end = False\<rparr>"

text \<open>
  The classes are \<open>[A-Z]\<close>, \<open>[0-9]\<close> and \<open>[^A-Za-z0-9]\<close>. \<open>password_strength\<close> is the
  value of the variable \<open>strength\<close> after the four tests of the keyup handler.
\<close>

definition password_strength :: "jsstring \<Rightarrow> nat" where
  "password_strength password =
     (let strength = 0;
          strength = (if length password \<ge> 8 then strength + 1 else strength);
          strength = (if test (search (Cls (\<lambda>c. 65 \<le> c \<and> c \<le> 90))) password
                      then strength + 1 else strength);
          strength = (if test (search (Cls (\<lambda>c. 48 \<le> c \<and> c \<le> 57))) password
                      then strength + 1 else strength);
          strength = (if test (search (Cls (\<lambda>c. \<not> ((65 \<le> c \<and> c \<le> 90)
                                  \<or> (97 \<le> c \<and> c \<le> 122) \<or> (48 \<le> c \<and> c \<le> 57))))) password
                      then strength + 1 else strength)
      in strength)"

text \<open>
  The badge \<open>#password-strength\<close>: its text and its class attribute. \<open>removeClass()\<close>
  without argument clears the attribute before the two new classes are added.
\<close>

record strength_badge =
  sb_text :: jsstring
  sb_class :: jsstring

definition password_keyup :: "jsstring \<Rightarrow> strength_badge \<Rightarrow> strength_badge" where
  "password_keyup password b =
     (let strength = password_strength password;
          strengthText =
            [js ''Very Weak'', js ''Weak'', js ''Fair'', js ''Good'', js ''Strong''] ! strength;
          strengthColor =
            [js ''danger'', js ''warning'', js ''info'', js ''primary'', js ''success''] ! strength
      in b\<lparr>sb_text := strengthText, sb_class := js ''badge bg-'' @ strengthColor\<rparr>)"

text \<open>The four criteria in the words of the specification, and the set a password satisfies.\<close>

datatype criterion = MinLength | Uppercase | Digit | Symbol

definition satisfied :: "jsstring \<Rightarrow> criterion set" where
  "satisfied p =
     (if 8 \<le> length p then {MinLength} else {})
     \<union> (if \<exists>c \<in> set p. 65 \<le> c \<and> c \<le> 90 then {Uppercase} else {})
     \<union> (if \<exists>c \<in> set p. 48 \<le> c \<and> c \<le> 57 then {Digit} else {})
     \<union> (if \<exists>c \<in> set p. \<not> ((65 \<le> c \<and> c \<le> 90) \<or> (97 \<le> c \<and> c \<le> 122)
                             \<or> (48 \<le> c \<and> c \<le> 57)) then {Symbol} else {})"

text \<open>
  A string matches the email pattern when it is a local part, an \<open>@\<close>, a domain part, a
  full stop and a final part, the three parts non-empty and free of white space and
  \<open>@\<close>.
\<close>

definition email_pattern :: "jsstring \<Rightarrow> bool" where
  "email_pattern s \<longleftrightarrow>
     (\<exists>a b c. s = a @ [64] @ b @ [46] @ c \<and> a \<noteq> [] \<and> b \<noteq> [] \<and> c \<noteq> []
        \<and> (\<forall>x \<in> set (a @ b @ c). \<not> is_space x \<and> x \<noteq> 64))"

section \<open>Sequences of events\<close>

text \<open>
  The browser runs one handler at a time. A history of the load-more control is a list of
  clicks and settled requests, handled in order.
\<close>

datatype 'j jobs_event = Click | Settled "'j list outcome"

fun loadMoreJobs_event :: "'j jobs_event \<Rightarrow> page \<Rightarrow> page" where
  "loadMoreJobs_event Click s = loadMoreJobs_click s"
| "loadMoreJobs_event (Settled out) s = loadMoreJobs_settled out s"

fun loadMoreJobs_run :: "'j jobs_event list \<Rightarrow> page \<Rightarrow> page" where
  "loadMoreJobs_run [] s = s"
| "loadMoreJobs_run (e # es) s = loadMoreJobs_run es (loadMoreJobs_event e s)"

definition jobs_request :: "nat \<Rightarrow> request" where
  "jobs_request n = GET (js ''/api/jobs'') [(js ''page'', QNum n)]"

definition clicks :: "'j jobs_event list \<Rightarrow> nat" where
  "clicks es = length (filter (\<lambda>e. e = Click) es)"




text \<open>
  The mirror of the tag list as the specification words it, written without the string
  functions of the script: a text is stripped of its \<open>a\<close> leading and \<open>b\<close> trailing white
  space code units and of its first multiplication sign, and the texts are put one after
  the other, each but the last followed by a comma.
\<close>

definition strip_spaces :: "jsstring \<Rightarrow> jsstring" where
  "strip_spaces t =
     (let a = length (takeWhile is_space t);
          b = length (takeWhile is_space (rev (drop a t)))
      in take (length t - a - b) (drop a t))"

definition comma_join :: "jsstring list \<Rightarrow> jsstring" where
  "comma_join xs =
     (if xs = [] then [] else concat (map (\<lambda>x. x @ js '','') (butlast xs)) @ last xs)"

definition mirror :: "jsstring list \<Rightarrow> jsstring" where
  "mirror tags = comma_join (map (\<lambda>t. remove1 215 (strip_spaces t)) tags)"


section \<open>Properties\<close>

declare digits.simps [simp del]

lemma digits_small: "n < 10 \<Longrightarrow> digits n = [48 + n]"
  by (simp add: digits.simps)

subsection \<open>Relative time\<close>



text \<open>
  C10: the elapsed time is an absolute value, so \<open>daysAgo\<close> does not see the direction
  of time: exchanging the clock and the date gives the same label, a date some time
  ahead of the clock gives the label of the date as far behind it, and a date five days
  ahead reads \<open>5 days ago\<close>.
\<close>

theorem daysAgo_symmetric:
  "daysAgo now (Some d) = daysAgo d (Some now)
   \<and> daysAgo now (Some (now + e)) = daysAgo now (Some (now - e))
   \<and> daysAgo now (Some (now + 5 * 86400000)) = js ''5 days ago''"
proof -
  have swap: "daysAgo now (Some d) = daysAgo d (Some now)"
    by (simp add: daysAgo_def abs_minus_commute)
  have mirror: "daysAgo now (Some (now + e)) = daysAgo now (Some (now - e))"
    by (simp add: daysAgo_def)
  have ahead: "daysAgo now (Some (now + 5 * 86400000)) = js ''5 days ago''"
    by (simp add: daysAgo_def numToString_def digits_small js_def)
  from swap mirror ahead show ?thesis by blast
qed

subsection \<open>Remote calls and the notification banner\<close>

text \<open>
  C9: when an ajax-form submission settles, a response with the success flag set
  prepends a success notification carrying the server's message, a response without it
  prepends an error notification carrying the server's message, and a rejected request
  prepends the fixed error notification \<open>Something went wrong. Please try again.\<close>;
  nothing else on the page changes, and every outcome adds exactly one notification.
\<close>

theorem ajax_form_notifies:
  "(fr_success r \<longrightarrow>
      ajax_form_settled (Resolved r) s =
        s\<lparr>notifications :=
            \<lparr>title = js ''Success!'', message = fr_message r, type = js ''success''\<rparr>
              # notifications s\<rparr>)
   \<and> (\<not> fr_success r \<longrightarrow>
      ajax_form_settled (Resolved r) s =
        s\<lparr>notifications :=
            \<lparr>title = js ''Error!'', message = fr_message r, type = js ''error''\<rparr>
              # notifications s\<rparr>)
   \<and> ajax_form_settled Rejected s =
        s\<lparr>notifications :=
            \<lparr>title = js ''Error!'', message = js ''Something went wrong. Please try again.'',
              type = js ''error''\<rparr> # notifications s\<rparr>
   \<and> length (notifications (ajax_form_settled out s)) = Suc (length (notifications s))"
proof -
  have count: "length (notifications (ajax_form_settled out s)) = Suc (length (notifications s))"
    by (cases out) (simp_all add: ajax_form_settled_def showNotification_def)
  then show ?thesis
    by (simp add: ajax_form_settled_def showNotification_def)
qed

theorem ajax_form_notifies_witness:
  "fr_success \<lparr>fr_success = True, fr_message = js ''Saved''\<rparr>
   \<and> notifications
        (ajax_form_settled (Resolved \<lparr>fr_success = True, fr_message = js ''Saved''\<rparr>) empty_page)
       = [\<lparr>title = js ''Success!'', message = js ''Saved'', type = js ''success''\<rparr>]
   \<and> \<not> fr_success \<lparr>fr_success = False, fr_message = js ''Taken''\<rparr>
   \<and> notifications
        (ajax_form_settled (Resolved \<lparr>fr_success = False, fr_message = js ''Taken''\<rparr>) empty_page)
       = [\<lparr>title = js ''Error!'', message = js ''Taken'', type = js ''error''\<rparr>]"
  using ajax_form_notifies [of "\<lparr>fr_success = True, fr_message = js ''Saved''\<rparr>" empty_page]
        ajax_form_notifies [of "\<lparr>fr_success = False, fr_message = js ''Taken''\<rparr>" empty_page]
  by (simp add: empty_page_def)

text \<open>
  C2: a rejected resume-parsing request shows the fixed error notification
  \<open>Failed to parse resume.\<close>, but a response whose success flag is false leaves the
  page as it was: the success callback has no \<open>else\<close> branch, and no notification
  appears.
\<close>

theorem parseResume_failure_flag_silent:
  "parseResume_settled rendered
     (Resolved \<lparr>pr_success = False, pr_name = None, pr_email = None, pr_phone = None,
                pr_skills = None\<rparr>) s = s
   \<and> parseResume_settled rendered Rejected s =
        s\<lparr>notifications :=
            \<lparr>title = js ''Error!'', message = js ''Failed to parse resume.'', type = js ''error''\<rparr>
              # notifications s\<rparr>"
  by (simp add: parseResume_settled_def showNotification_def)

text \<open>
  C3, as stated, fails: a rejected unread-count request on a page without notifications
  leaves the banner empty.
\<close>

theorem get_rejection_counterexample:
  "notifications (checkNotifications_settled Rejected empty_page) = []"
  by (simp add: checkNotifications_settled_def empty_page_def)

text \<open>
  C3, amended: the two POST calls (ajax form, resume parsing) answer a rejected request
  with an error notification prepended to the banner; the autocomplete GET and the
  unread-count GET have no failure callback, and a rejected request leaves the page
  unchanged.
\<close>

theorem rejection_handling:
  "ajax_form_settled Rejected s =
     showNotification (js ''Error!'') (js ''Something went wrong. Please try again.'')
       (js ''error'') s
   \<and> parseResume_settled rendered Rejected s =
     showNotification (js ''Error!'') (js ''Failed to parse resume.'') (js ''error'') s
   \<and> notifications (showNotification t m ty s) =
       \<lparr>title = t, message = m, type = ty\<rparr> # notifications s
   \<and> jobSearch_settled Rejected s = s
   \<and> checkNotifications_settled Rejected s = s"
  by (simp add: ajax_form_settled_def parseResume_settled_def jobSearch_settled_def
      checkNotifications_settled_def showNotification_def)

subsection \<open>Load more\<close>

lemma click_effect:
  "loadMoreJobs_click s =
     s\<lparr>currentPage := Suc (currentPage s),
       loadMoreJobs := (loadMoreJobs s)\<lparr>disabled := True,
          html := js ''<span class=\"spinner-border spinner-border-sm\"></span> Loading...''\<rparr>,
       requests := requests s @ [jobs_request (Suc (currentPage s))]\<rparr>"
  by (simp add: loadMoreJobs_click_def jobs_request_def Let_def)

lemma settled_keeps_counter:
  "currentPage (loadMoreJobs_settled out s) = currentPage s"
  "requests (loadMoreJobs_settled out s) = requests s"
  by (cases out; simp add: loadMoreJobs_settled_def)+

lemma run_requests:
  "currentPage (loadMoreJobs_run es s) = currentPage s + clicks es
   \<and> requests (loadMoreJobs_run es s) =
       requests s @ map jobs_request [Suc (currentPage s) ..< Suc (currentPage s) + clicks es]"
proof (induction es arbitrary: s)
  case Nil
  show ?case by (simp add: clicks_def)
next
  case (Cons e es)
  show ?case
  proof (cases e)
    case Click
    let ?c = "currentPage s"
    have count: "clicks (e # es) = Suc (clicks es)"
      using Click by (simp add: clicks_def)
    have range: "[Suc ?c ..< Suc ?c + Suc (clicks es)] =
        Suc ?c # [Suc (Suc ?c) ..< Suc (Suc ?c) + clicks es]"
      using upt_conv_Cons [of "Suc ?c" "Suc ?c + Suc (clicks es)"] by simp
    have after: "currentPage (loadMoreJobs_click s) = Suc ?c"
      "requests (loadMoreJobs_click s) = requests s @ [jobs_request (Suc ?c)]"
      by (simp_all add: click_effect)
    have step: "loadMoreJobs_run (e # es) s = loadMoreJobs_run es (loadMoreJobs_click s)"
      using Click by simp
    have counter: "currentPage (loadMoreJobs_run es (loadMoreJobs_click s)) = Suc ?c + clicks es"
      using Cons.IH [of "loadMoreJobs_click s"] unfolding after by blast
    have log: "requests (loadMoreJobs_run es (loadMoreJobs_click s)) =
        (requests s @ [jobs_request (Suc ?c)]) @
          map jobs_request [Suc (Suc ?c) ..< Suc (Suc ?c) + clicks es]"
      using Cons.IH [of "loadMoreJobs_click s"] unfolding after by blast
    have "currentPage (loadMoreJobs_run (e # es) s) = ?c + clicks (e # es)"
      unfolding step count counter by simp
    moreover have "requests (loadMoreJobs_run (e # es) s) =
        requests s @ map jobs_request [Suc ?c ..< Suc ?c + clicks (e # es)]"
      unfolding step count range log by (simp only: list.map append_assoc append.simps)
    ultimately show ?thesis by blast
  next
    case (Settled out)
    have "clicks (e # es) = clicks es"
      using Settled by (simp add: clicks_def)
    then show ?thesis
      using Settled Cons.IH [of "loadMoreJobs_settled out s"]
      by (simp add: settled_keeps_counter)
  qed
qed

lemma event_keeps_removed:
  "\<not> in_dom (loadMoreJobs s) \<Longrightarrow> \<not> in_dom (loadMoreJobs (loadMoreJobs_event e s))"
proof (cases e)
  case Click
  assume "\<not> in_dom (loadMoreJobs s)"
  then show ?thesis using Click by (simp add: click_effect)
next
  case (Settled out)
  assume "\<not> in_dom (loadMoreJobs s)"
  then show ?thesis using Settled by (cases out) (simp_all add: loadMoreJobs_settled_def)
qed

lemma run_keeps_removed:
  "\<not> in_dom (loadMoreJobs s) \<Longrightarrow> \<not> in_dom (loadMoreJobs (loadMoreJobs_run es s))"
  by (induction es arbitrary: s) (simp_all add: event_keeps_removed)

text \<open>
  C8: the page counter starts at 1. A click increments it, disables the control with the
  loading indicator as its content and requests the jobs endpoint with the new page
  number. A response with at least one job enables the control again with the label
  \<open>Load More\<close>; a response with no job removes the control. Hence, whatever responses
  arrive in between, the \<open>n\<close>-th click requests page \<open>n + 1\<close>; an empty response to the
  first click removes the control; and a removed control never comes back.
\<close>

theorem loadMoreJobs_paging:
  "currentPage (ready s) = 1
   \<and> loadMoreJobs_click s =
       s\<lparr>currentPage := Suc (currentPage s),
         loadMoreJobs := (loadMoreJobs s)\<lparr>disabled := True,
            html := js ''<span class=\"spinner-border spinner-border-sm\"></span> Loading...''\<rparr>,
         requests := requests s @ [GET (js ''/api/jobs'') [(js ''page'', QNum (Suc (currentPage s)))]]\<rparr>
   \<and> (jobs \<noteq> [] \<longrightarrow>
        loadMoreJobs_settled (Resolved jobs) s =
          s\<lparr>loadMoreJobs := (loadMoreJobs s)\<lparr>disabled := False, html := js ''Load More''\<rparr>\<rparr>)
   \<and> (jobs = [] \<longrightarrow>
        loadMoreJobs_settled (Resolved jobs) s =
          s\<lparr>loadMoreJobs := (loadMoreJobs s)\<lparr>in_dom := False\<rparr>\<rparr>)
   \<and> requests (loadMoreJobs_run (es :: 'j jobs_event list) (ready s)) =
       requests s @ map (\<lambda>k. GET (js ''/api/jobs'') [(js ''page'', QNum (k + 1))]) [1 ..< clicks es + 1]
   \<and> \<not> in_dom (loadMoreJobs (loadMoreJobs_settled (Resolved ([] :: 'j list)) (loadMoreJobs_click (ready s))))
   \<and> (\<not> in_dom (loadMoreJobs s) \<longrightarrow> \<not> in_dom (loadMoreJobs (loadMoreJobs_run es s)))"
proof -
  have start: "currentPage (ready s) = 1"
    by (simp add: ready_def)
  have click: "loadMoreJobs_click s =
       s\<lparr>currentPage := Suc (currentPage s),
         loadMoreJobs := (loadMoreJobs s)\<lparr>disabled := True,
            html := js ''<span class=\"spinner-border spinner-border-sm\"></span> Loading...''\<rparr>,
         requests := requests s @ [GET (js ''/api/jobs'') [(js ''page'', QNum (Suc (currentPage s)))]]\<rparr>"
    using click_effect [of s] by (simp add: jobs_request_def)
  have more: "jobs \<noteq> [] \<longrightarrow>
        loadMoreJobs_settled (Resolved jobs) s =
          s\<lparr>loadMoreJobs := (loadMoreJobs s)\<lparr>disabled := False, html := js ''Load More''\<rparr>\<rparr>"
    by (simp add: loadMoreJobs_settled_def)
  have none: "jobs = [] \<longrightarrow>
        loadMoreJobs_settled (Resolved jobs) s =
          s\<lparr>loadMoreJobs := (loadMoreJobs s)\<lparr>in_dom := False\<rparr>\<rparr>"
    by (simp add: loadMoreJobs_settled_def)
  have "map jobs_request [Suc 1 ..< Suc 1 + clicks es] =
        map (\<lambda>k. jobs_request (k + 1)) [1 ..< clicks es + 1]"
    by (simp add: map_Suc_upt [symmetric] del: upt_Suc)
  then have pages: "requests (loadMoreJobs_run es (ready s)) =
       requests s @ map (\<lambda>k. GET (js ''/api/jobs'') [(js ''page'', QNum (k + 1))]) [1 ..< clicks es + 1]"
    using run_requests [of es "ready s"] by (simp add: ready_def jobs_request_def)
  have first: "\<not> in_dom (loadMoreJobs (loadMoreJobs_settled (Resolved ([] :: 'j list)) (loadMoreJobs_click (ready s))))"
    by (simp add: loadMoreJobs_settled_def)
  have gone: "\<not> in_dom (loadMoreJobs s) \<longrightarrow> \<not> in_dom (loadMoreJobs (loadMoreJobs_run es s))"
    by (simp add: run_keeps_removed)
  from start click more none pages first gone show ?thesis by blast
qed


theorem loadMoreJobs_paging_witness:
  "[1::nat] \<noteq> []
   \<and> loadMoreJobs (loadMoreJobs_settled (Resolved [1::nat]) (loadMoreJobs_click empty_page)) =
       \<lparr>in_dom = True, disabled = False, html = js ''Load More''\<rparr>
   \<and> ([]::nat list) = []
   \<and> \<not> in_dom (loadMoreJobs (loadMoreJobs_settled (Resolved ([]::nat list)) empty_page))
   \<and> \<not> in_dom (loadMoreJobs (loadMoreJobs_run [Click :: nat jobs_event]
           (loadMoreJobs_settled (Resolved ([]::nat list)) empty_page)))"
proof -
  let ?clicked = "loadMoreJobs_click empty_page"
  let ?removed = "loadMoreJobs_settled (Resolved ([]::nat list)) empty_page"
  have nonempty: "[1::nat] \<noteq> []"
    by simp
  have "loadMoreJobs_settled (Resolved [1::nat]) ?clicked =
      ?clicked\<lparr>loadMoreJobs := (loadMoreJobs ?clicked)\<lparr>disabled := False, html := js ''Load More''\<rparr>\<rparr>"
    using nonempty
      loadMoreJobs_paging [where s = ?clicked and jobs = "[1::nat]"
        and es = "[] :: nat jobs_event list"]
    by blast
  then have more: "loadMoreJobs (loadMoreJobs_settled (Resolved [1::nat]) ?clicked) =
       \<lparr>in_dom = True, disabled = False, html = js ''Load More''\<rparr>"
    by (simp add: loadMoreJobs_click_def empty_page_def)
  have "?removed = empty_page\<lparr>loadMoreJobs := (loadMoreJobs empty_page)\<lparr>in_dom := False\<rparr>\<rparr>"
    using loadMoreJobs_paging [where s = empty_page and jobs = "[] :: nat list"
        and es = "[] :: nat jobs_event list"]
    by blast
  then have removed: "\<not> in_dom (loadMoreJobs ?removed)"
    by simp
  have gone: "\<not> in_dom (loadMoreJobs (loadMoreJobs_run [Click :: nat jobs_event] ?removed))"
    using removed
      loadMoreJobs_paging [where s = ?removed and jobs = "[] :: nat list"
        and es = "[Click :: nat jobs_event]"]
    by blast
  from nonempty more removed gone show ?thesis
    by blast
qed

subsection \<open>Skill tags\<close>



















subsection \<open>Resume upload\<close>

lemma digits_nonempty: "digits n \<noteq> []"
  by (subst digits.simps) simp

lemma digits_are_digits: "list_all is_digit (digits n)"
proof (induction n rule: digits.induct)
  case (1 n)
  show ?case
  proof (cases "n < 10")
    case True
    then show ?thesis by (simp add: digits_small is_digit_def)
  next
    case False
    have "n mod 10 < 10" by simp
    then have "is_digit (48 + n mod 10)"
      unfolding is_digit_def by linarith
    then show ?thesis
      using False "1.IH" by (subst digits.simps) simp
  qed
qed

lemma decimal_snoc: "decimal (ds @ [c]) = 10 * decimal ds + (c - 48)"
  by (simp add: decimal_def)

lemma decimal_digits: "decimal (digits n) = n"
proof (induction n rule: digits.induct)
  case (1 n)
  show ?case
  proof (cases "n < 10")
    case True
    then show ?thesis by (simp add: digits_small decimal_def)
  next
    case False
    then have "decimal (digits n) = 10 * decimal (digits (n div 10)) + n mod 10"
      by (subst digits.simps) (simp add: decimal_snoc)
    then show ?thesis
      using False "1.IH" by simp
  qed
qed

lemma takeWhile_digits:
  "takeWhile (\<lambda>c. c \<noteq> 46) (digits m @ 46 # rest) = digits m"
proof -
  have "\<forall>c \<in> set (digits m). c \<noteq> 46"
    using digits_are_digits [of m] by (auto simp: list_all_iff is_digit_def)
  then show ?thesis
    by (simp add: takeWhile_append2)
qed

lemma two_digits: "10 * ((n::nat) mod 100 div 10) + n mod 10 = n mod 100"
proof -
  have "n mod 100 mod 10 = n mod 10"
    by (simp add: mod_mod_cancel)
  moreover have "10 * (n mod 100 div 10) + n mod 100 mod 10 = n mod 100"
    by (rule mult_div_mod_eq)
  ultimately show ?thesis by simp
qed

lemma toNumber_toFixed2:
  "toNumber (toFixed2 x) = Some (real (nat \<lfloor>x * 100 + 1 / 2\<rfloor>) / 100)"
proof -
  define n where "n = nat \<lfloor>x * 100 + 1 / 2\<rfloor>"
  let ?hi = "n mod 100 div 10" and ?lo = "n mod 10"
  have shape: "toFixed2 x = digits (n div 100) @ 46 # [48 + ?hi, 48 + ?lo]"
    by (simp add: toFixed2_def n_def js_def Let_def)
  have ip: "takeWhile (\<lambda>c. c \<noteq> 46) (toFixed2 x) = digits (n div 100)"
    unfolding shape by (rule takeWhile_digits)
  have fp: "drop (Suc (length (digits (n div 100)))) (toFixed2 x) = [48 + ?hi, 48 + ?lo]"
    unfolding shape by simp
  have "?hi < 10" "?lo < 10"
    by simp_all
  then have two: "list_all is_digit [48 + ?hi, 48 + ?lo]"
    by (simp add: is_digit_def)
  have frac: "decimal [48 + ?hi, 48 + ?lo] = n mod 100"
    by (simp add: decimal_def two_digits)
  have longer: "length (digits (n div 100)) < length (toFixed2 x)"
    unfolding shape by simp
  have "toNumber (toFixed2 x) = Some (real (n div 100) + real (n mod 100) / 100)"
    unfolding toNumber_def Let_def ip fp
    using digits_nonempty digits_are_digits two longer
    by (simp add: decimal_digits frac)
  moreover have "real (n div 100) + real (n mod 100) / 100 = real n / 100"
  proof -
    have "n = 100 * (n div 100) + n mod 100" by simp
    then have "real n = 100 * real (n div 100) + real (n mod 100)"
      by (metis of_nat_add of_nat_mult of_nat_numeral)
    then show ?thesis by simp
  qed
  ultimately show ?thesis
    by (simp add: n_def)
qed

lemma exceeds_toFixed2:
  "exceeds (toFixed2 (real b / 1024 / 1024)) 5 \<longleftrightarrow> 5248123 \<le> b"
proof -
  define y where "y = real b / 1024 / 1024 * 100 + 1 / 2"
  have "exceeds (toFixed2 (real b / 1024 / 1024)) 5 \<longleftrightarrow> 5 < real (nat \<lfloor>y\<rfloor>) / 100"
    by (simp add: exceeds_def toNumber_toFixed2 y_def)
  also have "\<dots> \<longleftrightarrow> 500 < nat \<lfloor>y\<rfloor>"
    by auto
  also have "\<dots> \<longleftrightarrow> 501 \<le> \<lfloor>y\<rfloor>"
    by linarith
  also have "\<dots> \<longleftrightarrow> 501 \<le> y"
    by (simp add: le_floor_iff)
  also have "\<dots> \<longleftrightarrow> 131203072 \<le> 25 * real b"
    by (simp add: y_def field_simps)
  also have "\<dots> \<longleftrightarrow> 131203072 \<le> 25 * b"
    by (metis of_nat_le_iff of_nat_mult of_nat_numeral)
  also have "\<dots> \<longleftrightarrow> 5248123 \<le> b"
    by arith
  finally show ?thesis .
qed


lemma toFixed2_examples:
  "toFixed2 (real 5242881 / 1024 / 1024) = js ''5.00''"
  "toFixed2 (real 5253366 / 1024 / 1024) = js ''5.01''"
  "toFixed2 (real 5232394 / 1024 / 1024) = js ''4.99''"
  by (simp_all add: toFixed2_def digits_small js_def)

lemma resumeUpload_change_threshold:
  "resumeUpload_change (f # fs) s =
     (if 5248123 \<le> file_size f
      then s\<lparr>alerts := alerts s @ [js ''File size should be less than 5MB''], resumeUpload := []\<rparr>
      else parseResume f
             (s\<lparr>resumeFileName :=
                  file_name f @ js '' ('' @ toFixed2 (real (file_size f) / 1024 / 1024) @ js '' MB)''\<rparr>))"
  unfolding resumeUpload_change_def Let_def exceeds_toFixed2 list.case ..

text \<open>
  C1: the handler compares the size as printed with two decimals, not the size itself. A
  file of 5242881 bytes (one byte more than 5 MB) is printed as \<open>5.00\<close>, is not
  rejected, is shown as \<open>cv.pdf (5.00 MB)\<close> and is sent to the parsing endpoint: the
  rejection starts at 5248123 bytes. A file printed as \<open>5.01\<close> is rejected with the
  alert and a cleared input and without a request; a file printed as \<open>4.99\<close> is
  shown and sent.
\<close>

theorem resumeUpload_accepts_above_5MB:
  "5 < real 5242881 / 1024 / 1024
   \<and> resumeUpload_change [\<lparr>file_name = js ''cv.pdf'', file_size = 5242881\<rparr>] s =
       s\<lparr>resumeFileName := js ''cv.pdf (5.00 MB)'',
         requests := requests s @
           [POST (js ''/api/parse-resume'')
              [(js ''resume'', FilePart \<lparr>file_name = js ''cv.pdf'', file_size = 5242881\<rparr>)]]\<rparr>
   \<and> resumeUpload_change [\<lparr>file_name = js ''cv.pdf'', file_size = 5253366\<rparr>] s =
       s\<lparr>alerts := alerts s @ [js ''File size should be less than 5MB''], resumeUpload := []\<rparr>
   \<and> resumeUpload_change [\<lparr>file_name = js ''cv.pdf'', file_size = 5232394\<rparr>] s =
       s\<lparr>resumeFileName := js ''cv.pdf (4.99 MB)'',
         requests := requests s @
           [POST (js ''/api/parse-resume'')
              [(js ''resume'', FilePart \<lparr>file_name = js ''cv.pdf'', file_size = 5232394\<rparr>)]]\<rparr>"
proof -
  have over: "5 < real 5242881 / 1024 / 1024"
    by simp
  have name1: "js ''cv.pdf'' @ js '' ('' @ js ''5.00'' @ js '' MB)'' = js ''cv.pdf (5.00 MB)''"
    and name2: "js ''cv.pdf'' @ js '' ('' @ js ''4.99'' @ js '' MB)'' = js ''cv.pdf (4.99 MB)''"
    by (simp_all add: js_def)
  have accepted: "resumeUpload_change [\<lparr>file_name = js ''cv.pdf'', file_size = 5242881\<rparr>] s =
       s\<lparr>resumeFileName := js ''cv.pdf (5.00 MB)'',
         requests := requests s @
           [POST (js ''/api/parse-resume'')
              [(js ''resume'', FilePart \<lparr>file_name = js ''cv.pdf'', file_size = 5242881\<rparr>)]]\<rparr>"
    unfolding resumeUpload_change_threshold jsfile.simps toFixed2_examples name1
    by (simp add: parseResume_def)
  have rejected:
    "resumeUpload_change [\<lparr>file_name = js ''cv.pdf'', file_size = 5253366\<rparr>] s =
       s\<lparr>alerts := alerts s @ [js ''File size should be less than 5MB''], resumeUpload := []\<rparr>"
    unfolding resumeUpload_change_threshold by simp
  have below: "resumeUpload_change [\<lparr>file_name = js ''cv.pdf'', file_size = 5232394\<rparr>] s =
       s\<lparr>resumeFileName := js ''cv.pdf (4.99 MB)'',
         requests := requests s @
           [POST (js ''/api/parse-resume'')
              [(js ''resume'', FilePart \<lparr>file_name = js ''cv.pdf'', file_size = 5232394\<rparr>)]]\<rparr>"
    unfolding resumeUpload_change_threshold jsfile.simps toFixed2_examples name2
    by (simp add: parseResume_def)
  from over accepted rejected below show ?thesis
    by blast
qed

subsection \<open>The matcher accepts what the expression denotes\<close>

inductive_cases neverE: "denotes Never s"
inductive_cases emptyE: "denotes Empty s"
inductive_cases clsE: "denotes (Cls p) s"
inductive_cases altE: "denotes (Alt a b) s"
inductive_cases seqE: "denotes (Seq a b) s"

lemma matches_empty_sound: "matches_empty r \<Longrightarrow> denotes r []"
proof (induction r)
  case (Seq a b)
  then have "denotes a []" and "denotes b []" by simp_all
  then have "denotes (Seq a b) ([] @ [])" by (rule denotes.seq)
  then show ?case by simp
qed (auto intro: denotes.intros)

lemma matches_empty_complete: "denotes r s \<Longrightarrow> s = [] \<Longrightarrow> matches_empty r"
  by (induction rule: denotes.induct) simp_all

lemma residual_sound: "denotes (residual c r) s \<Longrightarrow> denotes r (c # s)"
proof (induction r arbitrary: s)
  case Never
  then show ?case by (auto elim: neverE)
next
  case Empty
  then show ?case by (auto elim: neverE)
next
  case (Cls p)
  then show ?case
    using denotes.cls [of p c] by (auto split: if_splits elim: neverE emptyE)
next
  case (Alt a b)
  then show ?case by (auto elim!: altE intro: denotes.alt_left denotes.alt_right)
next
  case (Seq a b)
  have left: "denotes (Seq a b) (c # s)" if "denotes (Seq (residual c a) b) s"
  proof -
    from that obtain u v where "s = u @ v" "denotes (residual c a) u" "denotes b v"
      by (auto elim: seqE)
    then have "denotes (Seq a b) ((c # u) @ v)"
      using Seq.IH(1) by (intro denotes.seq)
    then show ?thesis using \<open>s = u @ v\<close> by simp
  qed
  have right: "denotes (Seq a b) (c # s)" if "matches_empty a" "denotes (residual c b) s"
  proof -
    have "denotes (Seq a b) ([] @ c # s)"
      using that Seq.IH(2) matches_empty_sound by (intro denotes.seq)
    then show ?thesis by simp
  qed
  from Seq.prems show ?case
    by (auto split: if_splits elim!: altE intro: left right)
next
  case (Star r)
  from Star.prems obtain u v where "s = u @ v" "denotes (residual c r) u" "denotes (Star r) v"
    by (auto elim: seqE)
  then have "denotes (Star r) ((c # u) @ v)"
    using Star.IH by (intro denotes.star_more)
  then show ?case using \<open>s = u @ v\<close> by simp
qed

lemma residual_complete: "denotes r w \<Longrightarrow> w = c # s \<Longrightarrow> denotes (residual c r) s"
proof (induction arbitrary: s rule: denotes.induct)
  case (cls p d)
  then show ?case by (auto intro: denotes.empty)
next
  case (alt_left a u b)
  then show ?case by (auto intro: denotes.alt_left)
next
  case (alt_right b u a)
  then show ?case by (auto intro: denotes.alt_right)
next
  case (seq a u b v)
  show ?case
  proof (cases u)
    case Nil
    then have "matches_empty a" and "denotes (residual c b) s"
      using seq by (auto intro: matches_empty_complete)
    then show ?thesis by (auto intro: denotes.alt_right)
  next
    case (Cons d u')
    then have "d = c" and "s = u' @ v"
      using seq.prems by simp_all
    then have "denotes (residual c a) u'"
      using seq.IH(1) Cons by simp
    then have "denotes (Seq (residual c a) b) (u' @ v)"
      using seq.hyps(2) by (rule denotes.seq)
    then show ?thesis
      using \<open>s = u' @ v\<close> by (auto intro: denotes.alt_left)
  qed
next
  case (star_more r u v)
  show ?case
  proof (cases u)
    case Nil
    then show ?thesis using star_more by simp
  next
    case (Cons d u')
    then have "d = c" and "s = u' @ v"
      using star_more.prems by simp_all
    then have "denotes (residual c r) u'"
      using star_more.IH(1) Cons by simp
    then have "denotes (Seq (residual c r) (Star r)) (u' @ v)"
      using star_more.hyps(2) by (rule denotes.seq)
    then show ?thesis
      using \<open>s = u' @ v\<close> by simp
  qed
qed simp_all

lemma matches_denotes: "matches r s \<longleftrightarrow> denotes r s"
proof (induction s arbitrary: r)
  case Nil
  show ?case
    using matches_empty_sound matches_empty_complete by auto
next
  case (Cons c s)
  show ?case
    using Cons [of "residual c r"] residual_sound residual_complete by auto
qed

lemma denotes_Empty: "denotes Empty s \<longleftrightarrow> s = []"
  by (auto elim: emptyE intro: denotes.empty)

lemma denotes_Cls: "denotes (Cls p) s \<longleftrightarrow> (\<exists>c. s = [c] \<and> p c)"
  by (auto elim: clsE intro: denotes.cls)

lemma denotes_Seq: "denotes (Seq a b) s \<longleftrightarrow> (\<exists>u v. s = u @ v \<and> denotes a u \<and> denotes b v)"
proof
  assume "denotes (Seq a b) s"
  then show "\<exists>u v. s = u @ v \<and> denotes a u \<and> denotes b v"
    by (rule seqE) blast
next
  assume "\<exists>u v. s = u @ v \<and> denotes a u \<and> denotes b v"
  then show "denotes (Seq a b) s"
    by (auto intro: denotes.seq)
qed

lemma star_cls_only: "denotes r s \<Longrightarrow> r = Star (Cls p) \<Longrightarrow> \<forall>x \<in> set s. p x"
  by (induction rule: denotes.induct) (auto simp: denotes_Cls)

lemma star_cls_all: "\<forall>x \<in> set s. p x \<Longrightarrow> denotes (Star (Cls p)) s"
proof (induction s)
  case Nil
  show ?case by (rule denotes.star_stop)
next
  case (Cons c s)
  then have "denotes (Cls p) [c]" and "denotes (Star (Cls p)) s"
    by (simp_all add: denotes_Cls)
  then have "denotes (Star (Cls p)) ([c] @ s)"
    by (rule denotes.star_more)
  then show ?case by simp
qed

lemma denotes_Star_Cls: "denotes (Star (Cls p)) s \<longleftrightarrow> (\<forall>x \<in> set s. p x)"
  using star_cls_only star_cls_all by blast

lemma denotes_Plus_Cls: "denotes (Plus (Cls p)) s \<longleftrightarrow> s \<noteq> [] \<and> (\<forall>x \<in> set s. p x)"
proof
  assume "denotes (Plus (Cls p)) s"
  then show "s \<noteq> [] \<and> (\<forall>x \<in> set s. p x)"
    by (auto simp: Plus_def denotes_Seq denotes_Cls denotes_Star_Cls)
next
  assume s: "s \<noteq> [] \<and> (\<forall>x \<in> set s. p x)"
  then obtain c cs where split: "s = [c] @ cs"
    by (cases s) simp_all
  then have "denotes (Cls p) [c]" and "denotes (Star (Cls p)) cs"
    using s by (simp_all add: denotes_Cls denotes_Star_Cls)
  then show "denotes (Plus (Cls p)) s"
    unfolding Plus_def split by (rule denotes.seq)
qed

lemma denotes_anything: "denotes anything s"
  by (simp add: anything_def denotes_Star_Cls)

lemma test_search_Cls: "test (search (Cls p)) s \<longleftrightarrow> (\<exists>c \<in> set s. p c)"
proof
  assume "test (search (Cls p)) s"
  then show "\<exists>c \<in> set s. p c"
    by (auto simp: test_def search_def matches_denotes denotes_Seq denotes_Cls)
next
  assume "\<exists>c \<in> set s. p c"
  then obtain c u v where "s = u @ [c] @ v" and "p c"
    by (auto simp: in_set_conv_decomp)
  then have "denotes (Seq anything (Seq (Cls p) anything)) (u @ [c] @ v)"
    by (intro denotes.seq denotes_anything denotes.cls)
  then show "test (search (Cls p)) s"
    using \<open>s = u @ [c] @ v\<close> by (simp add: test_def search_def matches_denotes)
qed

lemma test_emailRegex: "test emailRegex s \<longleftrightarrow> email_pattern s"
proof
  assume "test emailRegex s"
  then show "email_pattern s"
    unfolding test_def emailRegex_def matches_denotes email_pattern_def
    by (simp add: denotes_Seq denotes_Plus_Cls denotes_Cls denotes_Empty Chr_def) fastforce
next
  assume "email_pattern s"
  then obtain a b c where s: "s = a @ [64] @ b @ [46] @ c"
    and ne: "a \<noteq> []" "b \<noteq> []" "c \<noteq> []"
    and cls: "\<forall>x \<in> set (a @ b @ c). \<not> is_space x \<and> x \<noteq> 64"
    unfolding email_pattern_def by blast
  let ?P = "Plus (Cls (\<lambda>c. \<not> (is_space c \<or> c = 64)))"
  have "denotes ?P a" "denotes ?P b" "denotes ?P c"
    using ne cls by (simp_all add: denotes_Plus_Cls)
  moreover have "denotes (Chr 64) [64]" "denotes (Chr 46) [46]"
    by (simp_all add: Chr_def denotes_Cls)
  ultimately have "denotes (Seq ?P (Seq (Chr 64) (Seq ?P (Seq (Chr 46) ?P)))) s"
    unfolding s by (intro denotes.seq)
  then have "denotes (Seq Empty (Seq (Seq ?P (Seq (Chr 64) (Seq ?P (Seq (Chr 46) ?P)))) Empty)) s"
    by (simp add: denotes_Seq [of Empty] denotes_Seq [of _ Empty] denotes_Empty)
  then show "test emailRegex s"
    by (simp add: test_def emailRegex_def matches_denotes)
qed

subsection \<open>Email validation\<close>

lemma email_examples:
  "test emailRegex (js ''a@b.co'')"
  "\<not> test emailRegex (js ''a@b'')"
  "\<not> test emailRegex (js ''a b@c.d'')"
  by (simp_all add: test_def emailRegex_def Plus_def Chr_def js_def is_space_def)

text \<open>
  C7: on blur, a field whose value matches the email pattern has its invalid state
  cleared; a non-empty value that does not match marks the field invalid and puts the
  message \<open>Please enter a valid email address.\<close> into the feedback element that
  follows the field; the empty value clears the invalid state and shows no message.
\<close>

theorem email_blur_validates:
  "(email_pattern (val f) \<longrightarrow> email_blur f = f\<lparr>is_invalid := False\<rparr>)
   \<and> (val f \<noteq> [] \<and> \<not> email_pattern (val f) \<longrightarrow>
        email_blur f =
          f\<lparr>is_invalid := True,
            feedback := map_option (\<lambda>old. js ''Please enter a valid email address.'') (feedback f)\<rparr>)
   \<and> (val f = [] \<longrightarrow> email_blur f = f\<lparr>is_invalid := False\<rparr>)"
  by (simp add: email_blur_def test_emailRegex)

theorem email_blur_validates_witness:
  "email_pattern (js ''a@b.co'')
   \<and> email_blur \<lparr>val = js ''a@b.co'', is_invalid = True, feedback = Some []\<rparr> =
       \<lparr>val = js ''a@b.co'', is_invalid = False, feedback = Some []\<rparr>
   \<and> js ''a@b'' \<noteq> [] \<and> \<not> email_pattern (js ''a@b'')
   \<and> email_blur \<lparr>val = js ''a@b'', is_invalid = False, feedback = Some []\<rparr> =
       \<lparr>val = js ''a@b'', is_invalid = True,
        feedback = Some (js ''Please enter a valid email address.'')\<rparr>
   \<and> email_blur \<lparr>val = [], is_invalid = True, feedback = Some []\<rparr> =
       \<lparr>val = [], is_invalid = False, feedback = Some []\<rparr>"
proof -
  have good: "email_pattern (js ''a@b.co'')"
    unfolding test_emailRegex [symmetric]
    by (simp add: test_def emailRegex_def Plus_def Chr_def js_def is_space_def)
  have bad: "\<not> email_pattern (js ''a@b'')"
    unfolding test_emailRegex [symmetric]
    by (simp add: test_def emailRegex_def Plus_def Chr_def js_def is_space_def)
  have nonempty: "js ''a@b'' \<noteq> []"
    by (simp add: js_def)
  have valid: "email_blur \<lparr>val = js ''a@b.co'', is_invalid = True, feedback = Some []\<rparr> =
       \<lparr>val = js ''a@b.co'', is_invalid = False, feedback = Some []\<rparr>"
    using good email_blur_validates [of "\<lparr>val = js ''a@b.co'', is_invalid = True, feedback = Some []\<rparr>"]
    by simp
  have invalid: "email_blur \<lparr>val = js ''a@b'', is_invalid = False, feedback = Some []\<rparr> =
       \<lparr>val = js ''a@b'', is_invalid = True,
        feedback = Some (js ''Please enter a valid email address.'')\<rparr>"
    using bad nonempty
      email_blur_validates [of "\<lparr>val = js ''a@b'', is_invalid = False, feedback = Some []\<rparr>"]
    by simp
  have blank: "email_blur \<lparr>val = [], is_invalid = True, feedback = Some []\<rparr> =
       \<lparr>val = [], is_invalid = False, feedback = Some []\<rparr>"
    using email_blur_validates [of "\<lparr>val = [], is_invalid = True, feedback = Some []\<rparr>"]
    by simp
  from good valid nonempty bad invalid blank show ?thesis
    by blast
qed

subsection \<open>Password strength\<close>

lemma check_adds: "(if a then n + 1 else n) = n + (of_bool a :: nat)"
  by simp

lemma password_strength_sum:
  "password_strength p =
     of_bool (8 \<le> length p)
     + of_bool (\<exists>c \<in> set p. 65 \<le> c \<and> c \<le> 90)
     + of_bool (\<exists>c \<in> set p. 48 \<le> c \<and> c \<le> 57)
     + of_bool (\<exists>c \<in> set p. \<not> ((65 \<le> c \<and> c \<le> 90) \<or> (97 \<le> c \<and> c \<le> 122)
                                \<or> (48 \<le> c \<and> c \<le> 57)))"
  unfolding password_strength_def Let_def test_search_Cls check_adds
  by (simp only: add_0)

lemma card_criteria:
  "card ((if A then {MinLength} else {}) \<union> (if B then {Uppercase} else {})
         \<union> (if C then {Digit} else {}) \<union> (if D then {Symbol} else {})) =
     of_bool A + of_bool B + of_bool C + of_bool D"
  by (cases A; cases B; cases C; cases D; simp)

lemma card_satisfied:
  "card (satisfied p) =
     of_bool (8 \<le> length p)
     + of_bool (\<exists>c \<in> set p. 65 \<le> c \<and> c \<le> 90)
     + of_bool (\<exists>c \<in> set p. 48 \<le> c \<and> c \<le> 57)
     + of_bool (\<exists>c \<in> set p. \<not> ((65 \<le> c \<and> c \<le> 90) \<or> (97 \<le> c \<and> c \<le> 122)
                                \<or> (48 \<le> c \<and> c \<le> 57)))"
  unfolding satisfied_def by (rule card_criteria)

lemma finite_satisfied: "finite (satisfied p)"
  unfolding satisfied_def by simp

lemma strength_examples:
  "password_strength (js ''a'') = 0"
  "password_strength (js ''aaaaaaaa'') = 1"
  "password_strength (js ''Aaaaaaaa'') = 2"
  "password_strength (js ''Aaaaaaa1'') = 3"
  "password_strength (js ''Aaaaaaa1!'') = 4"
  by (simp_all add: password_strength_sum js_def)

lemma labels:
  "[js ''Very Weak'', js ''Weak'', js ''Fair'', js ''Good'', js ''Strong''] ! 0 = js ''Very Weak''"
  "[js ''Very Weak'', js ''Weak'', js ''Fair'', js ''Good'', js ''Strong''] ! 1 = js ''Weak''"
  "[js ''Very Weak'', js ''Weak'', js ''Fair'', js ''Good'', js ''Strong''] ! 2 = js ''Fair''"
  "[js ''Very Weak'', js ''Weak'', js ''Fair'', js ''Good'', js ''Strong''] ! 3 = js ''Good''"
  "[js ''Very Weak'', js ''Weak'', js ''Fair'', js ''Good'', js ''Strong''] ! 4 = js ''Strong''"
  by (simp_all add: nth_Cons')

lemma colours:
  "js ''badge bg-'' @ [js ''danger'', js ''warning'', js ''info'', js ''primary'', js ''success''] ! 0
     = js ''badge bg-danger''"
  "js ''badge bg-'' @ [js ''danger'', js ''warning'', js ''info'', js ''primary'', js ''success''] ! 1
     = js ''badge bg-warning''"
  "js ''badge bg-'' @ [js ''danger'', js ''warning'', js ''info'', js ''primary'', js ''success''] ! 2
     = js ''badge bg-info''"
  "js ''badge bg-'' @ [js ''danger'', js ''warning'', js ''info'', js ''primary'', js ''success''] ! 3
     = js ''badge bg-primary''"
  "js ''badge bg-'' @ [js ''danger'', js ''warning'', js ''info'', js ''primary'', js ''success''] ! 4
     = js ''badge bg-success''"
  by (simp_all add: nth_Cons' js_def)

text \<open>
  C6: for every password the score is the sum of four independent checks (at least 8
  code units, an uppercase letter, a digit, a character that is neither letter nor
  digit), that is the number of satisfied criteria; it lies between 0 and 4 and grows
  with the set of satisfied criteria. The handler writes the label and the colour class
  selected by the score into the badge; \<open>a\<close>, \<open>aaaaaaaa\<close>, \<open>Aaaaaaaa\<close>, \<open>Aaaaaaa1\<close>
  and \<open>Aaaaaaa1!\<close> score 0 to 4 and show \<open>Very Weak\<close>, \<open>Weak\<close>, \<open>Fair\<close>, \<open>Good\<close>
  and \<open>Strong\<close>.
\<close>

theorem password_strength_score:
  "password_strength p =
     of_bool (8 \<le> length p)
     + of_bool (\<exists>c \<in> set p. 65 \<le> c \<and> c \<le> 90)
     + of_bool (\<exists>c \<in> set p. 48 \<le> c \<and> c \<le> 57)
     + of_bool (\<exists>c \<in> set p. \<not> ((65 \<le> c \<and> c \<le> 90) \<or> (97 \<le> c \<and> c \<le> 122)
                                \<or> (48 \<le> c \<and> c \<le> 57)))
   \<and> password_strength p = card (satisfied p)
   \<and> password_strength p \<le> 4
   \<and> (satisfied p \<subseteq> satisfied q \<longrightarrow> password_strength p \<le> password_strength q)
   \<and> password_keyup p b =
       b\<lparr>sb_text := [js ''Very Weak'', js ''Weak'', js ''Fair'', js ''Good'', js ''Strong'']
                       ! password_strength p,
         sb_class := js ''badge bg-''
                       @ [js ''danger'', js ''warning'', js ''info'', js ''primary'', js ''success'']
                           ! password_strength p\<rparr>
   \<and> password_keyup (js ''a'') b = b\<lparr>sb_text := js ''Very Weak'', sb_class := js ''badge bg-danger''\<rparr>
   \<and> password_keyup (js ''aaaaaaaa'') b = b\<lparr>sb_text := js ''Weak'', sb_class := js ''badge bg-warning''\<rparr>
   \<and> password_keyup (js ''Aaaaaaaa'') b = b\<lparr>sb_text := js ''Fair'', sb_class := js ''badge bg-info''\<rparr>
   \<and> password_keyup (js ''Aaaaaaa1'') b = b\<lparr>sb_text := js ''Good'', sb_class := js ''badge bg-primary''\<rparr>
   \<and> password_keyup (js ''Aaaaaaa1!'') b = b\<lparr>sb_text := js ''Strong'', sb_class := js ''badge bg-success''\<rparr>"
proof -
  have count: "password_strength p = card (satisfied p)" for p
    by (simp only: password_strength_sum card_satisfied)
  have bound: "password_strength p \<le> 4"
    unfolding password_strength_sum by (simp add: of_bool_def)
  have mono: "satisfied p \<subseteq> satisfied q \<longrightarrow> password_strength p \<le> password_strength q"
    unfolding count by (simp add: card_mono finite_satisfied)
  have handler: "password_keyup p b =
       b\<lparr>sb_text := [js ''Very Weak'', js ''Weak'', js ''Fair'', js ''Good'', js ''Strong'']
                       ! password_strength p,
         sb_class := js ''badge bg-''
                       @ [js ''danger'', js ''warning'', js ''info'', js ''primary'', js ''success'']
                           ! password_strength p\<rparr>" for p
    by (simp only: password_keyup_def Let_def)
  have e0: "password_keyup (js ''a'') b =
      b\<lparr>sb_text := js ''Very Weak'', sb_class := js ''badge bg-danger''\<rparr>"
    unfolding handler strength_examples labels colours ..
  have e1: "password_keyup (js ''aaaaaaaa'') b =
      b\<lparr>sb_text := js ''Weak'', sb_class := js ''badge bg-warning''\<rparr>"
    unfolding handler strength_examples labels colours ..
  have e2: "password_keyup (js ''Aaaaaaaa'') b =
      b\<lparr>sb_text := js ''Fair'', sb_class := js ''badge bg-info''\<rparr>"
    unfolding handler strength_examples labels colours ..
  have e3: "password_keyup (js ''Aaaaaaa1'') b =
      b\<lparr>sb_text := js ''Good'', sb_class := js ''badge bg-primary''\<rparr>"
    unfolding handler strength_examples labels colours ..
  have e4: "password_keyup (js ''Aaaaaaa1!'') b =
      b\<lparr>sb_text := js ''Strong'', sb_class := js ''badge bg-success''\<rparr>"
    unfolding handler strength_examples labels colours ..
  from password_strength_sum [of p] count [of p] bound mono handler [of p] e0 e1 e2 e3 e4
  show ?thesis by blast
qed

theorem password_strength_score_witness:
  "satisfied (js ''aaaaaaaa'') \<subseteq> satisfied (js ''Aaaaaaa1'')
   \<and> password_strength (js ''aaaaaaaa'') \<le> password_strength (js ''Aaaaaaa1'')
   \<and> password_strength (js ''aaaaaaaa'') = 1
   \<and> password_strength (js ''Aaaaaaa1'') = 3"
proof -
  have sub: "satisfied (js ''aaaaaaaa'') \<subseteq> satisfied (js ''Aaaaaaa1'')"
    by (simp add: satisfied_def js_def)
  then have "password_strength (js ''aaaaaaaa'') \<le> password_strength (js ''Aaaaaaa1'')"
    using password_strength_score [of "js ''aaaaaaaa''" "js ''Aaaaaaa1''"] by blast
  with sub show ?thesis
    by (simp add: strength_examples)
qed

end
